theory Spec2Isabelle
  imports Complex_Main "HOL-Library.AList"
begin

unbundle bit_operations_syntax

section \<open>Client construction: the gateway intent bitmask\<close>

text \<open>
  \<^verbatim>\<open>src/Client.ts\<close>, lines 111-127: the table \<^verbatim>\<open>intentsMap\<close>, in the order of the object
  literal (the order \<^verbatim>\<open>Object.values\<close> and \<^verbatim>\<open>Object.entries\<close> enumerate). \<^verbatim>\<open>1 << k\<close> is
  \<open>push_bit k 1\<close>. JavaScript's \<^verbatim>\<open>|\<close> and \<^verbatim>\<open><<\<close> work on 32-bit integers; every value that
  occurs here lies in \<open>0 .. 2^15 - 1\<close>, where they agree with the operations on \<open>int\<close>.
\<close>

definition intentsMap :: "(string \<times> int) list" where
  "intentsMap =
    [(''guilds'', push_bit 0 1),
     (''guildMembers'', push_bit 1 1),
     (''guildBans'', push_bit 2 1),
     (''guildEmojis'', push_bit 3 1),
     (''guildIntegrations'', push_bit 4 1),
     (''guildWebhooks'', push_bit 5 1),
     (''guildInvites'', push_bit 6 1),
     (''guildVoiceStates'', push_bit 7 1),
     (''guildPresences'', push_bit 8 1),
     (''guildMessages'', push_bit 9 1),
     (''guildMessageReactions'', push_bit 10 1),
     (''guildMessageTyping'', push_bit 11 1),
     (''directMessages'', push_bit 12 1),
     (''directMessageReactions'', push_bit 13 1),
     (''directMessageTyping'', push_bit 14 1)]"

text \<open>
  A JavaScript number: \<^verbatim>\<open>NaN\<close>, the two infinities, the negative zero, or a finite value
  (every finite double is a real; \<open>Finite 0\<close> is the positive zero). \<^verbatim>\<open>if (intents)\<close> on a
  number is false exactly for \<^verbatim>\<open>NaN\<close>, \<^verbatim>\<open>0\<close> and \<^verbatim>\<open>-0\<close>.
\<close>

datatype js_number = NaN | PosInfinity | NegInfinity | NegZero | Finite real

fun truthy_number :: "js_number \<Rightarrow> bool" where
  "truthy_number NaN = False"
| "truthy_number NegZero = False"
| "truthy_number (Finite x) = (x \<noteq> 0)"
| "truthy_number PosInfinity = True"
| "truthy_number NegInfinity = True"

text \<open>
  The constructor's second parameter,
  \<^verbatim>\<open>intents: Record<keyof typeof intentsMap, boolean> | number | boolean = true\<close>.
  A record is read only through \<^verbatim>\<open>intents[key]\<close> in a condition, so it is modelled by the
  truth value of each entry; an object is truthy at line 145.
\<close>

datatype intents_arg =
    IntentsBool bool
  | IntentsNumber js_number
  | IntentsRecord "string \<Rightarrow> bool"

text \<open>
  Lines 143-157: the computation of \<^verbatim>\<open>newIntents\<close>, which starts as \<^verbatim>\<open>0\<close> and keeps that
  value whenever \<^verbatim>\<open>intents\<close> is falsy.
\<close>

fun newIntents :: "intents_arg \<Rightarrow> js_number" where
  "newIntents (IntentsBool b) =
     (if b then Finite (real_of_int (foldl (\<lambda>prev curr. prev OR curr) 0 (map snd intentsMap)))
      else Finite 0)"
| "newIntents (IntentsNumber n) = (if truthy_number n then n else Finite 0)"
| "newIntents (IntentsRecord r) =
     Finite (real_of_int
       (fold (\<lambda>(key, val) acc. if r key then acc OR val else acc) intentsMap 0))"

text \<open>
  Lines 140 and 159: an omitted argument takes the default \<^verbatim>\<open>true\<close>; the result is the
  second argument of \<^verbatim>\<open>new ShardManager(shardAmount, newIntents)\<close>.
\<close>

definition shardManager_intents :: "intents_arg option \<Rightarrow> js_number" where
  "shardManager_intents intents =
     newIntents (case intents of None \<Rightarrow> IntentsBool True | Some a \<Rightarrow> a)"

section \<open>The REST transport: \<^verbatim>\<open>RestClient.request\<close>\<close>

text \<open>
  \<^verbatim>\<open>src/rest/RestClient.ts\<close>, lines 17-89. JSON values (\<open>'j\<close>) and the contents of files
  (\<open>'f\<close>) are left abstract. The \<^verbatim>\<open>data\<close> argument (\<^verbatim>\<open>data?: any\<close>) is \<^verbatim>\<open>undefined\<close> (\<open>None\<close>)
  or one of the shapes the code tells apart: \<^verbatim>\<open>null\<close>; an object whose \<^verbatim>\<open>file\<close> property is
  truthy, with its other properties; a \<^verbatim>\<open>FormData\<close> instance; any other value. The truthy
  \<^verbatim>\<open>file\<close> is a Blob (a File has a name, a plain Blob has none) or some other value.
\<close>

datatype 'f file_value =
    Blob 'f "string option"
  | NotBlob

datatype 'f form_entry =
    FormFile string 'f string
  | FormValue string string

datatype ('j, 'f) request_data =
    DataNull
  | DataWithFile "'f file_value" 'j
  | DataForm "'f form_entry list"
  | DataPlain 'j

datatype 'f request_body =
    BodyForm "'f form_entry list"
  | BodyText string

datatype http_method = GET | POST | PUT | PATCH | DELETE

record 'f fetch_args =
  url :: string
  fetch_method :: http_method
  headers :: "(string \<times> string) list"
  body :: "'f request_body option"

text \<open>
  What \<^verbatim>\<open>fetch\<close> resolves to, as far as \<^verbatim>\<open>request\<close> reads it: the status, and the result of
  \<^verbatim>\<open>await res.json()\<close> (\<open>None\<close> when the body is not JSON and the promise rejects).
\<close>

record 'j response =
  status :: nat
  json :: "'j option"

text \<open>
  The platform under \<^verbatim>\<open>request\<close>, which is not part of the repository: whether
  \<^verbatim>\<open>Headers.append\<close> accepts a header value (it throws a TypeError otherwise), what
  \<^verbatim>\<open>JSON.stringify\<close> does with a value (it throws, for a cyclic value say, or returns
  \<^verbatim>\<open>undefined\<close> or a text), and what \<^verbatim>\<open>fetch\<close> answers (\<open>None\<close>: the promise rejects).
\<close>

datatype stringified = Throws | Undefined | Text string

record ('j, 'f) runtime =
  header_value_ok :: "string \<Rightarrow> bool"
  JSON_stringify :: "'j \<Rightarrow> stringified"
  fetch :: "'f fetch_args \<Rightarrow> 'j response option"

text \<open>
  The failures of \<^verbatim>\<open>request\<close>: the two error classes of \<^verbatim>\<open>rest/Error.ts\<close> with the
  arguments the code constructs them with, and the errors it lets through: a TypeError
  of the platform while the request is built, what \<^verbatim>\<open>JSON.stringify\<close> throws, the rejection
  of \<^verbatim>\<open>fetch\<close> and the rejection of \<^verbatim>\<open>res.json()\<close>.
\<close>

datatype 'j rest_error =
    DiscordJSONError nat 'j
  | HTTPError nat string
  | RequestTypeError
  | StringifyThrown
  | FetchRejected
  | JSONSyntaxError

text \<open>
  Lines 22-53: the headers, the body and the argument of the \<^verbatim>\<open>fetch\<close> call, or the error
  thrown before the call is reached. \<open>REST\<close> is the constant \<^verbatim>\<open>URLs.REST\<close> of \<^verbatim>\<open>utils.ts\<close>, a
  parameter here. In the order of the source:
  \<^item> line 27: \<^verbatim>\<open>headers.append("Authorization", "Bot " + this.token)\<close> for a truthy
    (non-empty) token, a TypeError when the value is refused;
  \<^item> line 33: \<^verbatim>\<open>data.file\<close>, a TypeError when \<^verbatim>\<open>data\<close> is \<^verbatim>\<open>null\<close>;
  \<^item> line 37: \<^verbatim>\<open>data.append("file", file, file.name)\<close>, a TypeError when \<^verbatim>\<open>file\<close> is not a
    Blob; the file name of a Blob without a name is \<^verbatim>\<open>"blob"\<close>;
  \<^item> line 38: \<^verbatim>\<open>data.append("payload_json", otherData)\<close> converts the object
    \<^verbatim>\<open>otherData\<close> to a string, which for an object literal is \<^verbatim>\<open>"[object Object]"\<close>;
  \<^item> lines 41-46: a FormData is the body as it is; anything else sets the content type
    and is passed to \<^verbatim>\<open>JSON.stringify\<close>.
\<close>

definition request_fetch_args ::
  "('j, 'f) runtime \<Rightarrow> string \<Rightarrow> string \<Rightarrow> string \<Rightarrow> http_method
    \<Rightarrow> ('j, 'f) request_data option \<Rightarrow> 'j rest_error + 'f fetch_args"
where
  "request_fetch_args rt REST token endpoint meth data =
    (let headers0 = [(''User-Agent'', ''DiscordBot (https://github.com/DenordTS/denord, 0.0.1)'')]
     in if token \<noteq> [] \<and> \<not> header_value_ok rt (''Bot '' @ token) then Inl RequestTypeError
        else
          (let headers1 = (if token \<noteq> [] then headers0 @ [(''Authorization'', ''Bot '' @ token)]
                           else headers0)
           in case data of
                None \<Rightarrow>
                  Inr \<lparr>url = REST @ endpoint, fetch_method = meth, headers = headers1, body = None\<rparr>
              | Some DataNull \<Rightarrow> Inl RequestTypeError
              | Some (DataWithFile NotBlob otherData) \<Rightarrow> Inl RequestTypeError
              | Some (DataWithFile (Blob file name) otherData) \<Rightarrow>
                  Inr \<lparr>url = REST @ endpoint, fetch_method = meth, headers = headers1,
                       body = Some (BodyForm
                         [FormFile ''file'' file (case name of Some n \<Rightarrow> n | None \<Rightarrow> ''blob''),
                          FormValue ''payload_json'' ''[object Object]''])\<rparr>
              | Some (DataForm form) \<Rightarrow>
                  Inr \<lparr>url = REST @ endpoint, fetch_method = meth, headers = headers1,
                       body = Some (BodyForm form)\<rparr>
              | Some (DataPlain j) \<Rightarrow>
                  (case JSON_stringify rt j of
                     Throws \<Rightarrow> Inl StringifyThrown
                   | Undefined \<Rightarrow>
                       Inr \<lparr>url = REST @ endpoint, fetch_method = meth,
                            headers = headers1 @ [(''Content-Type'', ''application/json'')],
                            body = None\<rparr>
                   | Text t \<Rightarrow>
                       Inr \<lparr>url = REST @ endpoint, fetch_method = meth,
                            headers = headers1 @ [(''Content-Type'', ''application/json'')],
                            body = Some (BodyText t)\<rparr>)))"

text \<open>Lines 55-88: the \<^verbatim>\<open>switch (res.status)\<close>, case by case in the order of the source.\<close>

definition request_switch :: "'j response \<Rightarrow> 'j rest_error + 'j option" where
  "request_switch res =
    (if status res = 200 \<or> status res = 201 then
       (case json res of Some j \<Rightarrow> Inr (Some j) | None \<Rightarrow> Inl JSONSyntaxError)
     else if status res = 204 then Inr None
     else if status res = 400 \<or> status res = 404 then
       (case json res of Some j \<Rightarrow> Inl (DiscordJSONError (status res) j)
        | None \<Rightarrow> Inl JSONSyntaxError)
     else if status res = 401 then Inl (HTTPError (status res) ''You supplied an invalid token'')
     else if status res = 403 then
       Inl (HTTPError (status res) ''You don't have permission to do this'')
     else if status res = 429 then Inl (HTTPError (status res) ''You are getting rate-limited'')
     else if status res = 502 then
       Inl (HTTPError (status res) ''Gateway unavailable. Wait and retry'')
     else if status res = 500 \<or> status res = 503 \<or> status res = 504 \<or> status res = 507
             \<or> status res = 508 then
       Inl (HTTPError (status res) ''Discord internal error'')
     else Inl (HTTPError (status res) ''Unexpected response''))"

text \<open>
  The whole of \<^verbatim>\<open>request\<close>. The first component of the result is the trace of the calls of
  \<^verbatim>\<open>fetch\<close> made, in order: none when building the request throws, one otherwise. The
  second is the value returned (\<open>None\<close> for \<^verbatim>\<open>undefined\<close>) or the error thrown.
\<close>

definition request ::
  "('j, 'f) runtime \<Rightarrow> string \<Rightarrow> string \<Rightarrow> string \<Rightarrow> http_method
    \<Rightarrow> ('j, 'f) request_data option
    \<Rightarrow> 'f fetch_args list \<times> ('j rest_error + 'j option)"
where
  "request rt REST token endpoint meth data =
    (case request_fetch_args rt REST token endpoint meth data of
       Inl err \<Rightarrow> ([], Inl err)
     | Inr args \<Rightarrow>
         ([args],
          case fetch rt args of
            None \<Rightarrow> Inl FetchRejected
          | Some res \<Rightarrow> request_switch res))"

text \<open>
  A platform for concrete runs: header values must not contain a NUL, a line feed or a
  carriage return; a JSON value is its own text; every call is answered with the given
  status and body.
\<close>

definition answering :: "nat \<Rightarrow> string option \<Rightarrow> (string, unit) runtime" where
  "answering s b =
    \<lparr>header_value_ok = (\<lambda>v. CHR 0x00 \<notin> set v \<and> CHR 0x0A \<notin> set v \<and> CHR 0x0D \<notin> set v),
     JSON_stringify = Text,
     fetch = (\<lambda>_. Some \<lparr>status = s, json = b\<rparr>)\<rparr>"

definition users_me :: "(string, unit) runtime \<Rightarrow> (string, unit) request_data option
    \<Rightarrow> unit fetch_args list \<times> (string rest_error + string option)" where
  "users_me rt data = request rt ''https://discord.com/api/'' ''token'' ''users/@me'' GET data"

section \<open>The entity store and the gateway payloads\<close>

text \<open>
  \<^verbatim>\<open>src/Client.ts\<close>. A \<^verbatim>\<open>Snowflake\<close> is a string. The wire payloads (\<^verbatim>\<open>discord.ts\<close>) and the
  entity classes (\<^verbatim>\<open>structures/*.ts\<close>) are not part of the sources at hand; each is modelled
  by a record of the properties that \<^verbatim>\<open>Client.ts\<close> reads or writes, and a representative
  attribute where a claim tells a full value from a stub.
\<close>

type_synonym Snowflake = string

datatype error = TypeError

record raw_user =
  ru_id :: Snowflake
  ru_username :: string

record User =
  u_id :: Snowflake
  u_username :: string

record PrivateUser =
  pu_id :: Snowflake
  pu_username :: string

text \<open>
  The emoji of a reaction payload, \<^verbatim>\<open>e.data.emoji\<close>: \<^verbatim>\<open>id\<close> and \<^verbatim>\<open>name\<close> may each be \<^verbatim>\<open>null\<close>.
  The key of a reaction aggregate is \<^verbatim>\<open>e.data.emoji.id ?? e.data.emoji.name!\<close>; the \<^verbatim>\<open>!\<close> is
  erased at run time, so the key is \<^verbatim>\<open>null\<close> (\<open>None\<close>) when both are.
\<close>

record raw_emoji =
  re_id :: "Snowflake option"
  re_name :: "string option"

definition reaction_key :: "raw_emoji \<Rightarrow> string option" where
  "reaction_key e = (case re_id e of Some i \<Rightarrow> Some i | None \<Rightarrow> re_name e)"

text \<open>The reaction aggregate \<^verbatim>\<open>{count, emoji, me}\<close>; \<^verbatim>\<open>count\<close> is a JavaScript number, an \<open>int\<close> here.\<close>

record reaction =
  count :: int
  emoji :: raw_emoji
  me :: bool

record raw_message =
  rmsg_id :: Snowflake
  rmsg_channel_id :: Snowflake
  rmsg_guild_id :: "Snowflake option"
  rmsg_content :: string
  rmsg_reactions :: "reaction list"

record Message =
  msg_id :: Snowflake
  channelId :: Snowflake
  guildId :: "Snowflake option"
  content :: string
  reactions :: "string option \<rightharpoonup> reaction"

text \<open>
  Modelled from the spec: the constructor \<^verbatim>\<open>new Message(client, data)\<close> of
  \<^verbatim>\<open>structures/Message.ts\<close>, a ``pure payload-to-object value constructor''; a Message
  ``carries a mapping from reaction-key (emoji id or literal name) to an aggregate''.
\<close>

definition new_Message :: "raw_message \<Rightarrow> Message" where
  "new_Message data =
    \<lparr>msg_id = rmsg_id data, channelId = rmsg_channel_id data, guildId = rmsg_guild_id data,
     content = rmsg_content data,
     reactions = map_of (rev (map (\<lambda>r. (reaction_key (emoji r), r)) (rmsg_reactions data)))\<rparr>"

text \<open>\<^verbatim>\<open>type UnknownMessage = Pick<Message, "id" | "channelId" | "guildId">\<close> (line 66).\<close>

record UnknownMessage =
  um_id :: Snowflake
  um_channelId :: Snowflake
  um_guildId :: "Snowflake option"

text \<open>
  Channels. The wire type is one of the numbers 0 to 6 (the \<^verbatim>\<open>switch\<close> of
  \<^verbatim>\<open>newChannelSwitch\<close>, lines 608-625, is exhaustive for the payload type); the class chosen
  for it carries the discriminant \<^verbatim>\<open>type\<close> that the handlers compare with \<^verbatim>\<open>"DM"\<close> and
  \<^verbatim>\<open>"groupDM"\<close>.
\<close>

datatype wire_channel_type = Wire0 | Wire1 | Wire2 | Wire3 | Wire4 | Wire5 | Wire6

datatype channel_type =
  Type_text | Type_DM | Type_voice | Type_groupDM | Type_category | Type_news | Type_store

record raw_channel =
  rc_id :: Snowflake
  rc_type :: wire_channel_type
  rc_name :: string

record Channel =
  ch_id :: Snowflake
  ch_type :: channel_type
  ch_name :: string
  messages :: "Snowflake \<rightharpoonup> Message"

text \<open>
  Modelled from the spec: the channel classes (\<^verbatim>\<open>structures/TextChannel.ts\<close> and its
  siblings) are value constructors from the payload; a Channel ``exclusively owns its
  local Message cache'', which a newly constructed channel starts empty.
\<close>

definition new_Channel :: "channel_type \<Rightarrow> raw_channel \<Rightarrow> Channel" where
  "new_Channel t data =
    \<lparr>ch_id = rc_id data, ch_type = t, ch_name = rc_name data, messages = Map.empty\<rparr>"

text \<open>Lines 608-625.\<close>

definition newChannelSwitch :: "raw_channel \<Rightarrow> Channel" where
  "newChannelSwitch data =
    (case rc_type data of
       Wire0 \<Rightarrow> new_Channel Type_text data
     | Wire1 \<Rightarrow> new_Channel Type_DM data
     | Wire2 \<Rightarrow> new_Channel Type_voice data
     | Wire3 \<Rightarrow> new_Channel Type_groupDM data
     | Wire4 \<Rightarrow> new_Channel Type_category data
     | Wire5 \<Rightarrow> new_Channel Type_news data
     | Wire6 \<Rightarrow> new_Channel Type_store data)"

text \<open>Guild emojis: the payload entry and the entity \<^verbatim>\<open>parseEmoji\<close> makes of it.\<close>

record raw_guild_emoji =
  rge_id :: Snowflake
  rge_name :: string

record GuildEmoji =
  ge_id :: Snowflake
  ge_name :: string

text \<open>
  Modelled from the spec: \<^verbatim>\<open>parseEmoji\<close> of \<^verbatim>\<open>structures/Emoji.ts\<close>, a value constructor from
  the payload.
\<close>

definition parseEmoji :: "raw_guild_emoji \<Rightarrow> GuildEmoji" where
  "parseEmoji data = \<lparr>ge_id = rge_id data, ge_name = rge_name data\<rparr>"

text \<open>
  Guild members. \<^verbatim>\<open>raw_member\<close> is the member payload kept in \<^verbatim>\<open>GuildMember.raw\<close>;
  \<^verbatim>\<open>member_update\<close> is the payload of GUILD_MEMBER_UPDATE, whose \<^verbatim>\<open>nick\<close> and
  \<^verbatim>\<open>premium_since\<close> properties may be missing (outer \<open>None\<close>) or \<^verbatim>\<open>null\<close> (inner \<open>None\<close>).
\<close>

record raw_member =
  rm_user :: raw_user
  rm_nick :: "string option"
  rm_roles :: "Snowflake list"
  rm_joined_at :: string
  rm_premium_since :: "string option"
  rm_guild_id :: "Snowflake option"

record member_update =
  mu_guild_id :: Snowflake
  mu_roles :: "Snowflake list"
  mu_user :: raw_user
  mu_nick :: "string option option"
  mu_premium_since :: "string option option"

record GuildMember =
  raw :: raw_member
  gm_guildId :: Snowflake
  gm_user_id :: Snowflake
  nickname :: "string option"
  gm_roles :: "Snowflake list"
  joinedAt :: string

text \<open>
  Modelled from the spec: the constructor \<^verbatim>\<open>new GuildMember(client, data, guildId)\<close> of
  \<^verbatim>\<open>structures/GuildMember.ts\<close>; a Member ``wraps a User reference plus server-scoped
  attributes (nickname, roles, join time)''. The property \<^verbatim>\<open>raw\<close> is read at line 294.
\<close>

definition new_GuildMember :: "raw_member \<Rightarrow> Snowflake \<Rightarrow> GuildMember" where
  "new_GuildMember data guild_id =
    \<lparr>raw = data, gm_guildId = guild_id, gm_user_id = ru_id (rm_user data),
     nickname = rm_nick data, gm_roles = rm_roles data, joinedAt = rm_joined_at data\<rparr>"

text \<open>
  Lines 293-296, the object spread \<^verbatim>\<open>{...oldMember.raw, ...e.data}\<close>: every own property of
  the event data overrides the one of the old payload, the others are kept.
\<close>

definition spread_member :: "raw_member \<Rightarrow> member_update \<Rightarrow> raw_member" where
  "spread_member old data =
    \<lparr>rm_user = mu_user data,
     rm_nick = (case mu_nick data of None \<Rightarrow> rm_nick old | Some n \<Rightarrow> n),
     rm_roles = mu_roles data,
     rm_joined_at = rm_joined_at old,
     rm_premium_since =
       (case mu_premium_since data of None \<Rightarrow> rm_premium_since old | Some p \<Rightarrow> p),
     rm_guild_id = Some (mu_guild_id data)\<rparr>"

typedecl Role
typedecl Presence

text \<open>
  A guild. \<^verbatim>\<open>emojis\<close> is a JavaScript \<^verbatim>\<open>Map\<close> whose size and iteration order the handler
  uses: an association list in insertion order with distinct keys. The other maps are
  only read and written by key.
\<close>

record GatewayGuild =
  g_id :: Snowflake
  emojis :: "(Snowflake \<times> GuildEmoji) list"
  members :: "Snowflake \<rightharpoonup> GuildMember"
  roles :: "Snowflake \<rightharpoonup> Role"
  presences :: "Snowflake \<rightharpoonup> Presence"

text \<open>
  \<^verbatim>\<open>new Map(entries)\<close> for an array of pairs: \<^verbatim>\<open>Map.set\<close> for each entry in turn; setting
  a key already present replaces its value in place, a new key goes to the end.
\<close>

definition Map_of_entries :: "('k \<times> 'v) list \<Rightarrow> ('k \<times> 'v) list" where
  "Map_of_entries es = fold (\<lambda>(k, v) m. AList.update k v m) es []"

definition Map_has :: "('k \<times> 'v) list \<Rightarrow> 'k \<Rightarrow> bool" where
  "Map_has m k = (map_of m k \<noteq> None)"

definition Map_size :: "('k \<times> 'v) list \<Rightarrow> nat" where
  "Map_size m = length m"

text \<open>Lines 133-138: the state of a Client.\<close>

record Client =
  guildChannels :: "Snowflake \<rightharpoonup> Channel"
  dmChannels :: "Snowflake \<rightharpoonup> Channel"
  guilds :: "Snowflake \<rightharpoonup> GatewayGuild"
  users :: "Snowflake \<rightharpoonup> User"
  user :: "PrivateUser option"

text \<open>
  Lines 68-109: the notifications a handler emits, with the values it passes at run time
  (a value the handler may leave \<^verbatim>\<open>undefined\<close> is an \<open>option\<close>).
\<close>

datatype notification =
    channelUpdate "Channel option" Channel
  | guildEmojiCreate GatewayGuild "GuildEmoji option"
  | guildEmojiUpdate GatewayGuild
  | guildEmojiDelete GatewayGuild "GuildEmoji option"
  | guildMemberUpdate GatewayGuild GuildMember GuildMember
  | guildMembersChunk GatewayGuild "Snowflake \<rightharpoonup> GuildMember"
  | messageUpdate Channel "Message option" Message
  | messageDelete Channel "Message + UnknownMessage"
  | messageReactionAdd Channel "Message + Snowflake" raw_emoji "User option"
  | messageReactionRemove Channel "Message + Snowflake" raw_emoji "User option"

text \<open>
  A handler takes the client's state and the event data. It returns the state it leaves
  behind, and either the notifications emitted, in order, or the error thrown. Objects are
  mutated in place in the source: a handler that throws half way leaves its earlier
  mutations in the store, so the state is returned in both cases.
\<close>

type_synonym handled = "Client \<times> (error + notification list)"

text \<open>\<^verbatim>\<open>if (e.data.guild_id)\<close>: a missing id and the empty string are falsy.\<close>

definition truthy :: "Snowflake option \<Rightarrow> bool" where
  "truthy s = (case s of None \<Rightarrow> False | Some i \<Rightarrow> i \<noteq> [])"

section \<open>The event handlers of the Client\<close>

subsection \<open>CHANNEL_UPDATE, lines 181-193\<close>

text \<open>
  \<^verbatim>\<open>this.dmChannels.get(e.data.id)!\<close>: the \<^verbatim>\<open>!\<close> is erased at run time, so an absent entry
  gives \<^verbatim>\<open>undefined\<close>, which is emitted as it is.
\<close>

definition on_CHANNEL_UPDATE :: "Client \<Rightarrow> raw_channel \<Rightarrow> handled" where
  "on_CHANNEL_UPDATE c data =
    (let newChannel = newChannelSwitch data in
     if ch_type newChannel = Type_DM \<or> ch_type newChannel = Type_groupDM then
       (let oldChannel = dmChannels c (rc_id data) in
        (c\<lparr>dmChannels := (dmChannels c)(ch_id newChannel \<mapsto> newChannel)\<rparr>,
         Inr [channelUpdate oldChannel newChannel]))
     else
       (let oldChannel = guildChannels c (rc_id data) in
        (c\<lparr>guildChannels := (guildChannels c)(ch_id newChannel \<mapsto> newChannel)\<rparr>,
         Inr [channelUpdate oldChannel newChannel])))"

subsection \<open>GUILD_EMOJIS_UPDATE, lines 251-277\<close>

record guild_emojis_update =
  geu_guild_id :: Snowflake
  geu_emojis :: "raw_guild_emoji list"

text \<open>
  The statements in the order of the source: \<^verbatim>\<open>guild.emojis = newEmojis\<close> (line 254) comes
  before the comparison of the sizes (line 257), which therefore reads the emojis of the
  guild as already replaced. Line 255 stores the guild under its own id; the guild object
  found under \<^verbatim>\<open>e.data.guild_id\<close> is the one mutated. The loops of lines 259-263 and 269-273
  keep the last entry that passes the test.
\<close>

definition on_GUILD_EMOJIS_UPDATE :: "Client \<Rightarrow> guild_emojis_update \<Rightarrow> handled" where
  "on_GUILD_EMOJIS_UPDATE c data =
    (case guilds c (geu_guild_id data) of
       None \<Rightarrow> (c, Inl TypeError)
     | Some guild0 \<Rightarrow>
        (let newEmojis = Map_of_entries (map (\<lambda>e. (rge_id e, parseEmoji e)) (geu_emojis data));
             guild = guild0\<lparr>emojis := newEmojis\<rparr>;
             c' = c\<lparr>guilds := ((guilds c)(geu_guild_id data \<mapsto> guild))(g_id guild \<mapsto> guild)\<rparr>
         in if Map_size newEmojis > Map_size (emojis guild) then
              (let addedEmoji =
                     fold (\<lambda>(i, e) acc. if \<not> Map_has (emojis guild) i then Some e else acc)
                       newEmojis None
               in (c', Inr [guildEmojiCreate guild addedEmoji]))
            else if Map_size newEmojis = Map_size (emojis guild) then
              (c', Inr [guildEmojiUpdate guild])
            else
              (let deletedEmoji =
                     fold (\<lambda>(i, e) acc. if \<not> Map_has newEmojis i then Some e else acc)
                       (emojis guild) None
               in (c', Inr [guildEmojiDelete guild deletedEmoji]))))"

subsection \<open>GUILD_MEMBER_UPDATE, lines 290-301\<close>

text \<open>
  \<^verbatim>\<open>guild.members\<close> throws a TypeError when the guild is absent, and \<^verbatim>\<open>oldMember.raw\<close> when
  the member is: both lookups end in \<^verbatim>\<open>!\<close>, which checks nothing at run time.
\<close>

definition on_GUILD_MEMBER_UPDATE :: "Client \<Rightarrow> member_update \<Rightarrow> handled" where
  "on_GUILD_MEMBER_UPDATE c data =
    (case guilds c (mu_guild_id data) of
       None \<Rightarrow> (c, Inl TypeError)
     | Some guild \<Rightarrow>
        (case members guild (ru_id (mu_user data)) of
           None \<Rightarrow> (c, Inl TypeError)
         | Some oldMember \<Rightarrow>
            (let newMember = new_GuildMember (spread_member (raw oldMember) data) (mu_guild_id data);
                 guild' = guild\<lparr>members := (members guild)(ru_id (mu_user data) \<mapsto> newMember)\<rparr>
             in (c\<lparr>guilds := (guilds c)(mu_guild_id data \<mapsto> guild')\<rparr>,
                 Inr [guildMemberUpdate guild' oldMember newMember]))))"

subsection \<open>GUILD_MEMBERS_CHUNK, lines 310-320\<close>

record guild_members_chunk =
  gmc_guild_id :: Snowflake
  gmc_members :: "raw_member list"

text \<open>
  Line 313 builds the new member map with
  \<^verbatim>\<open>new Map({...guild.members.entries(), ...members.entries()})\<close>. The argument is an object
  literal that spreads two Map iterators. An object spread copies the own enumerable
  properties of its operand, and a Map iterator has none; the \<^verbatim>\<open>Map\<close> constructor iterates
  its argument, and an object literal is not iterable, which is a TypeError.
\<close>

datatype ('k, 'v) Map_argument =
    Iterable "('k \<times> 'v) list"
  | Object "(string \<times> 'v) list"

definition spread_iterator :: "('k \<rightharpoonup> 'v) \<Rightarrow> (string \<times> 'v) list" where
  "spread_iterator entries = []"

definition new_Map :: "('k, 'v) Map_argument \<Rightarrow> error + ('k \<rightharpoonup> 'v)" where
  "new_Map a = (case a of Iterable es \<Rightarrow> Inr (map_of (rev es)) | Object props \<Rightarrow> Inl TypeError)"

definition on_GUILD_MEMBERS_CHUNK :: "Client \<Rightarrow> guild_members_chunk \<Rightarrow> handled" where
  "on_GUILD_MEMBERS_CHUNK c data =
    (case guilds c (gmc_guild_id data) of
       None \<Rightarrow> (c, Inl TypeError)
     | Some guild \<Rightarrow>
        (case new_Map (Iterable (map (\<lambda>member. (ru_id (rm_user member),
                                          new_GuildMember member (gmc_guild_id data)))
                                  (gmc_members data))) of
           Inl err \<Rightarrow> (c, Inl err)
         | Inr chunk \<Rightarrow>
            (case new_Map (Object (spread_iterator (members guild) @ spread_iterator chunk)) of
               Inl err \<Rightarrow> (c, Inl err)
             | Inr merged \<Rightarrow>
                (let guild' = guild\<lparr>members := merged\<rparr>
                 in (c\<lparr>guilds := (guilds c)(gmc_guild_id data \<mapsto> guild')\<rparr>,
                     Inr [guildMembersChunk guild' chunk])))))"

subsection \<open>Messages: storing a mutated message and channel\<close>

text \<open>
  The message handlers mutate the channel (and the message) found in the store in place
  and then store it again under its own id: \<^verbatim>\<open>channel.messages.set(message.id, message)\<close>,
  \<^verbatim>\<open>this.guildChannels.set(channel.id, channel)\<close>. In the model the mutation is an update at
  the key the object was found under, followed by the update at the object's id.
\<close>

definition store_message :: "Channel \<Rightarrow> Snowflake \<Rightarrow> Message \<Rightarrow> Channel" where
  "store_message channel found_under message =
    channel\<lparr>messages := ((messages channel)(found_under \<mapsto> message))(msg_id message \<mapsto> message)\<rparr>"

definition store_guildChannel :: "Client \<Rightarrow> Snowflake \<Rightarrow> Channel \<Rightarrow> Client" where
  "store_guildChannel c found_under channel =
    c\<lparr>guildChannels := ((guildChannels c)(found_under \<mapsto> channel))(ch_id channel \<mapsto> channel)\<rparr>"

definition store_dmChannel :: "Client \<Rightarrow> Snowflake \<Rightarrow> Channel \<Rightarrow> Client" where
  "store_dmChannel c found_under channel =
    c\<lparr>dmChannels := ((dmChannels c)(found_under \<mapsto> channel))(ch_id channel \<mapsto> channel)\<rparr>"

subsection \<open>MESSAGE_UPDATE, lines 367-384\<close>

definition on_MESSAGE_UPDATE :: "Client \<Rightarrow> raw_message \<Rightarrow> handled" where
  "on_MESSAGE_UPDATE c data =
    (let newMessage = new_Message data in
     if truthy (rmsg_guild_id data) then
       (case guildChannels c (rmsg_channel_id data) of
          None \<Rightarrow> (c, Inl TypeError)
        | Some channel \<Rightarrow>
           (let oldMessage = messages channel (msg_id newMessage);
                channel' = channel\<lparr>messages := (messages channel)(msg_id newMessage \<mapsto> newMessage)\<rparr>
            in (store_guildChannel c (rmsg_channel_id data) channel',
                Inr [messageUpdate channel' oldMessage newMessage])))
     else
       (case dmChannels c (rmsg_channel_id data) of
          None \<Rightarrow> (c, Inl TypeError)
        | Some channel \<Rightarrow>
           (let oldMessage = messages channel (msg_id newMessage);
                channel' = channel\<lparr>messages := (messages channel)(msg_id newMessage \<mapsto> newMessage)\<rparr>
            in (store_dmChannel c (rmsg_channel_id data) channel',
                Inr [messageUpdate channel' oldMessage newMessage]))))"

subsection \<open>MESSAGE_DELETE, lines 385-405\<close>

record message_delete =
  md_id :: Snowflake
  md_channel_id :: Snowflake
  md_guild_id :: "Snowflake option"

text \<open>Lines 399-403: \<^verbatim>\<open>message || {id, channelId, guildId}\<close>; a Message object is truthy.\<close>

definition message_or_stub :: "Message option \<Rightarrow> message_delete \<Rightarrow> Message + UnknownMessage" where
  "message_or_stub message data =
    (case message of
       Some m \<Rightarrow> Inl m
     | None \<Rightarrow> Inr \<lparr>um_id = md_id data, um_channelId = md_channel_id data,
                      um_guildId = md_guild_id data\<rparr>)"

definition on_MESSAGE_DELETE :: "Client \<Rightarrow> message_delete \<Rightarrow> handled" where
  "on_MESSAGE_DELETE c data =
    (if truthy (md_guild_id data) then
       (case guildChannels c (md_channel_id data) of
          None \<Rightarrow> (c, Inl TypeError)
        | Some channel \<Rightarrow>
           (let message = messages channel (md_id data);
                channel' = channel\<lparr>messages := (messages channel)(md_id data := None)\<rparr>
            in (store_guildChannel c (md_channel_id data) channel',
                Inr [messageDelete channel' (message_or_stub message data)])))
     else
       (case dmChannels c (md_channel_id data) of
          None \<Rightarrow> (c, Inl TypeError)
        | Some channel \<Rightarrow>
           (let message = messages channel (md_id data);
                channel' = channel\<lparr>messages := (messages channel)(md_id data := None)\<rparr>
            in (store_dmChannel c (md_channel_id data) channel',
                Inr [messageDelete channel' (message_or_stub message data)]))))"

subsection \<open>MESSAGE_REACTION_ADD, lines 430-479\<close>

record reaction_event =
  rx_user_id :: Snowflake
  rx_channel_id :: Snowflake
  rx_message_id :: Snowflake
  rx_guild_id :: "Snowflake option"
  rx_emoji :: raw_emoji

text \<open>
  Lines 438-451 (and again 459-472): the new aggregate of a cached message. The first
  component of the result is the message as the code leaves it, the second the error
  thrown, if any. The object literal is evaluated property by property:
  \<^verbatim>\<open>++previousReaction.count\<close> increments the count of the stored aggregate in place before
  \<^verbatim>\<open>this.user!.id\<close> is read, which throws a TypeError when the session's user is not set.
  Without a previous aggregate the new one is created with \<^verbatim>\<open>count: 0\<close>.
\<close>

definition reaction_added ::
  "PrivateUser option \<Rightarrow> Snowflake \<Rightarrow> raw_emoji \<Rightarrow> Message \<Rightarrow> Message \<times> error option"
where
  "reaction_added self user_id em message =
    (let key = reaction_key em in
     case reactions message key of
       Some previousReaction \<Rightarrow>
         (let incremented = previousReaction\<lparr>count := count previousReaction + 1\<rparr> in
          case self of
            None \<Rightarrow> (message\<lparr>reactions := (reactions message)(key \<mapsto> incremented)\<rparr>,
                       Some TypeError)
          | Some u \<Rightarrow>
              (message\<lparr>reactions := (reactions message)(key \<mapsto>
                  \<lparr>count = count incremented, emoji = em,
                   me = (user_id = pu_id u \<or> me incremented)\<rparr>)\<rparr>,
               None))
     | None \<Rightarrow>
         (case self of
            None \<Rightarrow> (message, Some TypeError)
          | Some u \<Rightarrow>
              (message\<lparr>reactions := (reactions message)(key \<mapsto>
                  \<lparr>count = 0, emoji = em, me = (user_id = pu_id u)\<rparr>)\<rparr>,
               None)))"

definition on_MESSAGE_REACTION_ADD :: "Client \<Rightarrow> reaction_event \<Rightarrow> handled" where
  "on_MESSAGE_REACTION_ADD c data =
    (let usr = users c (rx_user_id data) in
     if truthy (rx_guild_id data) then
       (case guildChannels c (rx_channel_id data) of
          None \<Rightarrow> (c, Inl TypeError)
        | Some channel \<Rightarrow>
           (case messages channel (rx_message_id data) of
              None \<Rightarrow>
                (c, Inr [messageReactionAdd channel (Inr (rx_message_id data)) (rx_emoji data) usr])
            | Some message \<Rightarrow>
               (case reaction_added (user c) (rx_user_id data) (rx_emoji data) message of
                  (message', Some err) \<Rightarrow>
                    (c\<lparr>guildChannels := (guildChannels c)(rx_channel_id data \<mapsto>
                         channel\<lparr>messages := (messages channel)(rx_message_id data \<mapsto> message')\<rparr>)\<rparr>,
                     Inl err)
                | (message', None) \<Rightarrow>
                    (let channel' = store_message channel (rx_message_id data) message'
                     in (store_guildChannel c (rx_channel_id data) channel',
                         Inr [messageReactionAdd channel' (Inl message') (rx_emoji data) usr])))))
     else
       (case dmChannels c (rx_channel_id data) of
          None \<Rightarrow> (c, Inl TypeError)
        | Some channel \<Rightarrow>
           (case messages channel (rx_message_id data) of
              None \<Rightarrow>
                (c, Inr [messageReactionAdd channel (Inr (rx_message_id data)) (rx_emoji data) usr])
            | Some message \<Rightarrow>
               (case reaction_added (user c) (rx_user_id data) (rx_emoji data) message of
                  (message', Some err) \<Rightarrow>
                    (c\<lparr>dmChannels := (dmChannels c)(rx_channel_id data \<mapsto>
                         channel\<lparr>messages := (messages channel)(rx_message_id data \<mapsto> message')\<rparr>)\<rparr>,
                     Inl err)
                | (message', None) \<Rightarrow>
                    (let channel' = store_message channel (rx_message_id data) message'
                     in (store_dmChannel c (rx_channel_id data) channel',
                         Inr [messageReactionAdd channel' (Inl message') (rx_emoji data) usr]))))))"

subsection \<open>MESSAGE_REACTION_REMOVE, lines 480-514\<close>

text \<open>
  Lines 488-493 (and again 501-506). \<^verbatim>\<open>message.reactions.get(key)!\<close> is \<^verbatim>\<open>undefined\<close> when
  there is no aggregate under the key, and \<^verbatim>\<open>--previousReaction.count\<close> then throws a
  TypeError. Otherwise the count is decremented, in place first as for the increment.
\<close>

definition reaction_removed ::
  "PrivateUser option \<Rightarrow> Snowflake \<Rightarrow> raw_emoji \<Rightarrow> Message \<Rightarrow> Message \<times> error option"
where
  "reaction_removed self user_id em message =
    (let key = reaction_key em in
     case reactions message key of
       None \<Rightarrow> (message, Some TypeError)
     | Some previousReaction \<Rightarrow>
         (let decremented = previousReaction\<lparr>count := count previousReaction - 1\<rparr> in
          case self of
            None \<Rightarrow> (message\<lparr>reactions := (reactions message)(key \<mapsto> decremented)\<rparr>,
                       Some TypeError)
          | Some u \<Rightarrow>
              (message\<lparr>reactions := (reactions message)(key \<mapsto>
                  \<lparr>count = count decremented, emoji = em,
                   me = (user_id \<noteq> pu_id u \<and> me decremented)\<rparr>)\<rparr>,
               None)))"

text \<open>
  The branch for a channel of a guild ends with the stores (lines 494-495); the branch
  for a DM channel first deletes the key it has just set (line 507).
\<close>

definition on_MESSAGE_REACTION_REMOVE :: "Client \<Rightarrow> reaction_event \<Rightarrow> handled" where
  "on_MESSAGE_REACTION_REMOVE c data =
    (let usr = users c (rx_user_id data) in
     if truthy (rx_guild_id data) then
       (case guildChannels c (rx_channel_id data) of
          None \<Rightarrow> (c, Inl TypeError)
        | Some channel \<Rightarrow>
           (case messages channel (rx_message_id data) of
              None \<Rightarrow>
                (c, Inr [messageReactionRemove channel (Inr (rx_message_id data)) (rx_emoji data) usr])
            | Some message \<Rightarrow>
               (case reaction_removed (user c) (rx_user_id data) (rx_emoji data) message of
                  (message', Some err) \<Rightarrow>
                    (c\<lparr>guildChannels := (guildChannels c)(rx_channel_id data \<mapsto>
                         channel\<lparr>messages := (messages channel)(rx_message_id data \<mapsto> message')\<rparr>)\<rparr>,
                     Inl err)
                | (message', None) \<Rightarrow>
                    (let channel' = store_message channel (rx_message_id data) message'
                     in (store_guildChannel c (rx_channel_id data) channel',
                         Inr [messageReactionRemove channel' (Inl message') (rx_emoji data) usr])))))
     else
       (case dmChannels c (rx_channel_id data) of
          None \<Rightarrow> (c, Inl TypeError)
        | Some channel \<Rightarrow>
           (case messages channel (rx_message_id data) of
              None \<Rightarrow>
                (c, Inr [messageReactionRemove channel (Inr (rx_message_id data)) (rx_emoji data) usr])
            | Some message \<Rightarrow>
               (case reaction_removed (user c) (rx_user_id data) (rx_emoji data) message of
                  (message', Some err) \<Rightarrow>
                    (c\<lparr>dmChannels := (dmChannels c)(rx_channel_id data \<mapsto>
                         channel\<lparr>messages := (messages channel)(rx_message_id data \<mapsto> message')\<rparr>)\<rparr>,
                     Inl err)
                | (message', None) \<Rightarrow>
                    (let message'' = message'\<lparr>reactions :=
                           (reactions message')(reaction_key (rx_emoji data) := None)\<rparr>;
                         channel' = store_message channel (rx_message_id data) message''
                     in (store_dmChannel c (rx_channel_id data) channel',
                         Inr [messageReactionRemove channel' (Inl message'') (rx_emoji data) usr]))))))"

text \<open>
  Reading the store: the aggregate under a key of a message of a channel, for the guild
  channels and for the DM channels.
\<close>

definition guild_reaction ::
  "Client \<Rightarrow> Snowflake \<Rightarrow> Snowflake \<Rightarrow> string option \<Rightarrow> reaction option"
where
  "guild_reaction c channel_id message_id key =
    (case guildChannels c channel_id of
       None \<Rightarrow> None
     | Some channel \<Rightarrow>
        (case messages channel message_id of None \<Rightarrow> None | Some m \<Rightarrow> reactions m key))"

definition dm_reaction ::
  "Client \<Rightarrow> Snowflake \<Rightarrow> Snowflake \<Rightarrow> string option \<Rightarrow> reaction option"
where
  "dm_reaction c channel_id message_id key =
    (case dmChannels c channel_id of
       None \<Rightarrow> None
     | Some channel \<Rightarrow>
        (case messages channel message_id of None \<Rightarrow> None | Some m \<Rightarrow> reactions m key))"

section \<open>A concrete store\<close>

text \<open>
  A client after READY (its own user is \<open>''u0''\<close>) that knows one guild \<open>''g1''\<close> with no
  emojis and one member \<open>''u1''\<close>, the guild's text channel \<open>''c1''\<close> caching the message
  \<open>''m1''\<close>, which carries one \<open>heart\<close> of the client's own and no \<open>thumbsup\<close>, and the DM
  channel \<open>''d1''\<close> caching the message \<open>''m2''\<close>, on which \<open>thumbsup\<close> has been counted twice.
\<close>

definition thumbsup :: raw_emoji where
  "thumbsup = \<lparr>re_id = None, re_name = Some ''thumbsup''\<rparr>"

definition heart :: raw_emoji where
  "heart = \<lparr>re_id = None, re_name = Some ''heart''\<rparr>"

definition message_m1 :: Message where
  "message_m1 =
    \<lparr>msg_id = ''m1'', channelId = ''c1'', guildId = Some ''g1'', content = ''hello'',
     reactions = [Some ''heart'' \<mapsto> \<lparr>count = 1, emoji = heart, me = True\<rparr>]\<rparr>"

definition message_m2 :: Message where
  "message_m2 =
    \<lparr>msg_id = ''m2'', channelId = ''d1'', guildId = None, content = ''hi'',
     reactions = [Some ''thumbsup'' \<mapsto> \<lparr>count = 2, emoji = thumbsup, me = False\<rparr>]\<rparr>"

definition channel_c1 :: Channel where
  "channel_c1 =
    \<lparr>ch_id = ''c1'', ch_type = Type_text, ch_name = ''general'',
     messages = [''m1'' \<mapsto> message_m1]\<rparr>"

definition channel_d1 :: Channel where
  "channel_d1 =
    \<lparr>ch_id = ''d1'', ch_type = Type_DM, ch_name = ''ann'',
     messages = [''m2'' \<mapsto> message_m2]\<rparr>"

definition member_u1 :: GuildMember where
  "member_u1 =
    new_GuildMember
      \<lparr>rm_user = \<lparr>ru_id = ''u1'', ru_username = ''ann''\<rparr>, rm_nick = Some ''annie'',
       rm_roles = [''r1'', ''r2''], rm_joined_at = ''2020-06-01'', rm_premium_since = None,
       rm_guild_id = None\<rparr>
      ''g1''"

definition guild_g1 :: GatewayGuild where
  "guild_g1 =
    \<lparr>g_id = ''g1'', emojis = [], members = [''u1'' \<mapsto> member_u1], roles = Map.empty,
     presences = Map.empty\<rparr>"

definition client0 :: Client where
  "client0 =
    \<lparr>guildChannels = [''c1'' \<mapsto> channel_c1],
     dmChannels = [''d1'' \<mapsto> channel_d1],
     guilds = [''g1'' \<mapsto> guild_g1],
     users = [''u1'' \<mapsto> \<lparr>u_id = ''u1'', u_username = ''ann''\<rparr>],
     user = Some \<lparr>pu_id = ''u0'', pu_username = ''bot''\<rparr>\<rparr>"

text \<open>Reaction events for this store: user \<open>''u1''\<close> on the cached messages, and on unknown ones.\<close>

definition thumbsup_on_m1 :: reaction_event where
  "thumbsup_on_m1 =
    \<lparr>rx_user_id = ''u1'', rx_channel_id = ''c1'', rx_message_id = ''m1'',
     rx_guild_id = Some ''g1'', rx_emoji = thumbsup\<rparr>"

definition heart_on_m1 :: reaction_event where
  "heart_on_m1 =
    \<lparr>rx_user_id = ''u1'', rx_channel_id = ''c1'', rx_message_id = ''m1'',
     rx_guild_id = Some ''g1'', rx_emoji = heart\<rparr>"

definition thumbsup_on_m2 :: reaction_event where
  "thumbsup_on_m2 =
    \<lparr>rx_user_id = ''u1'', rx_channel_id = ''d1'', rx_message_id = ''m2'',
     rx_guild_id = None, rx_emoji = thumbsup\<rparr>"

definition heart_on_unknown_c1 :: reaction_event where
  "heart_on_unknown_c1 =
    \<lparr>rx_user_id = ''u1'', rx_channel_id = ''c1'', rx_message_id = ''m9'',
     rx_guild_id = Some ''g1'', rx_emoji = heart\<rparr>"

definition heart_on_unknown_d1 :: reaction_event where
  "heart_on_unknown_d1 =
    \<lparr>rx_user_id = ''u1'', rx_channel_id = ''d1'', rx_message_id = ''m9'',
     rx_guild_id = None, rx_emoji = heart\<rparr>"

text \<open>Further events for this store.\<close>

definition delete_m1 :: message_delete where
  "delete_m1 = \<lparr>md_id = ''m1'', md_channel_id = ''c1'', md_guild_id = Some ''g1''\<rparr>"

definition delete_unknown_d1 :: message_delete where
  "delete_unknown_d1 = \<lparr>md_id = ''m9'', md_channel_id = ''d1'', md_guild_id = None\<rparr>"

definition rename_u1 :: member_update where
  "rename_u1 =
    \<lparr>mu_guild_id = ''g1'', mu_roles = [''r1'', ''r2''],
     mu_user = \<lparr>ru_id = ''u1'', ru_username = ''ann''\<rparr>,
     mu_nick = Some (Some ''captain''), mu_premium_since = None\<rparr>"

definition rename_u9 :: member_update where
  "rename_u9 =
    \<lparr>mu_guild_id = ''g1'', mu_roles = [],
     mu_user = \<lparr>ru_id = ''u9'', ru_username = ''zed''\<rparr>,
     mu_nick = Some (Some ''zeddy''), mu_premium_since = None\<rparr>"

definition one_emoji :: guild_emojis_update where
  "one_emoji =
    \<lparr>geu_guild_id = ''g1'', geu_emojis = [\<lparr>rge_id = ''e1'', rge_name = ''party''\<rparr>]\<rparr>"

definition chunk_u7 :: guild_members_chunk where
  "chunk_u7 =
    \<lparr>gmc_guild_id = ''g1'',
     gmc_members =
       [\<lparr>rm_user = \<lparr>ru_id = ''u7'', ru_username = ''bob''\<rparr>, rm_nick = None, rm_roles = [],
         rm_joined_at = ''2020-07-01'', rm_premium_since = None, rm_guild_id = None\<rparr>]\<rparr>"

definition update_c2 :: raw_channel where
  "update_c2 = \<lparr>rc_id = ''c2'', rc_type = Wire0, rc_name = ''random''\<rparr>"

definition update_d2 :: raw_channel where
  "update_d2 = \<lparr>rc_id = ''d2'', rc_type = Wire1, rc_name = ''bob''\<rparr>"

definition edit_unknown_c1 :: raw_message where
  "edit_unknown_c1 =
    \<lparr>rmsg_id = ''m9'', rmsg_channel_id = ''c1'', rmsg_guild_id = Some ''g1'',
     rmsg_content = ''edited'', rmsg_reactions = []\<rparr>"

definition edit_unknown_d1 :: raw_message where
  "edit_unknown_d1 =
    \<lparr>rmsg_id = ''m9'', rmsg_channel_id = ''d1'', rmsg_guild_id = None,
     rmsg_content = ''edited'', rmsg_reactions = []\<rparr>"

section \<open>Properties of the intent bitmask\<close>

lemma fold_intents_bit:
  "bit (fold (\<lambda>(key, val) acc. if r key then acc OR val else acc) xs (a::int)) i
     \<longleftrightarrow> bit a i \<or> (\<exists>(k, v) \<in> set xs. r k \<and> bit v i)"
proof (induction xs arbitrary: a)
  case Nil
  show ?case by simp
next
  case (Cons x xs)
  obtain k v where x: "x = (k, v)" by (cases x)
  show ?case
    by (cases "r k") (auto simp: x Cons.IH bit_or_iff)
qed

lemma flag_bit: "bit (push_bit j (1::int)) i \<longleftrightarrow> push_bit j (1::int) = 2 ^ i"
  by (auto simp: push_bit_of_1 bit_exp_iff)

lemma intentsMap_shape: "(k, v) \<in> set intentsMap \<Longrightarrow> \<exists>j. v = push_bit j 1"
  by (simp only: intentsMap_def list.set insert_iff empty_iff prod.inject) blast

lemma intentsMap_flags:
  "(k, v) \<in> set intentsMap \<Longrightarrow> bit v i \<longleftrightarrow> v = 2 ^ i"
proof -
  assume "(k, v) \<in> set intentsMap"
  then obtain j where "v = push_bit j 1"
    using intentsMap_shape by blast
  then show ?thesis
    by (simp only: flag_bit)
qed

lemma all_intents: "foldl (\<lambda>prev curr. prev OR curr) 0 (map snd intentsMap) = (32767::int)"
  by (simp add: intentsMap_def)

text \<open>
  Claim C10 says that a numeric intents argument is passed through unchanged. For \<^verbatim>\<open>NaN\<close>,
  which is a number, this fails: it is falsy at line 145, and the ShardManager is given 0.
\<close>

theorem intents_NaN_gives_zero:
  "shardManager_intents (Some (IntentsNumber NaN)) = Finite 0
   \<and> shardManager_intents (Some (IntentsNumber NaN)) \<noteq> NaN"
  by (simp add: shardManager_intents_def)

text \<open>
  Claim C10 as amended. With the intents argument omitted or \<^verbatim>\<open>true\<close> the bitmask given to
  the ShardManager is the OR of all fifteen flags of \<^verbatim>\<open>intentsMap\<close>, 32767; a number is
  passed through unchanged unless it is \<^verbatim>\<open>NaN\<close> or the negative zero, for which 0 is given;
  \<^verbatim>\<open>false\<close> gives 0; a record gives the mask whose bit \<open>i\<close> is set exactly when some key
  with a true entry has the flag \<open>2^i\<close>.
\<close>

theorem shardManager_intents_bitmask:
  "length intentsMap = 15
   \<and> foldl (\<lambda>prev curr. prev OR curr) 0 (map snd intentsMap) = 32767
   \<and> shardManager_intents None = Finite 32767
   \<and> shardManager_intents (Some (IntentsBool True)) = Finite 32767
   \<and> shardManager_intents (Some (IntentsNumber n))
       = (if n = NaN \<or> n = NegZero then Finite 0 else n)
   \<and> shardManager_intents (Some (IntentsBool False)) = Finite 0
   \<and> (\<exists>mask. shardManager_intents (Some (IntentsRecord r)) = Finite (real_of_int mask)
         \<and> (\<forall>i. bit mask i \<longleftrightarrow> (\<exists>k. r k \<and> (k, 2 ^ i) \<in> set intentsMap)))"
proof -
  define mask where
    "mask = fold (\<lambda>(key, val) acc. if r key then acc OR val else acc) intentsMap 0"
  have rec: "bit mask i \<longleftrightarrow> (\<exists>k. r k \<and> (k, 2 ^ i) \<in> set intentsMap)" for i
  proof -
    have "bit mask i \<longleftrightarrow> (\<exists>(k, v) \<in> set intentsMap. r k \<and> bit v i)"
      by (simp add: mask_def fold_intents_bit)
    also have "\<dots> \<longleftrightarrow> (\<exists>k. r k \<and> (k, 2 ^ i) \<in> set intentsMap)"
      using intentsMap_flags [where i = i] by fastforce
    finally show ?thesis .
  qed
  have record_mask: "\<exists>mask. shardManager_intents (Some (IntentsRecord r)) = Finite (real_of_int mask)
         \<and> (\<forall>i. bit mask i \<longleftrightarrow> (\<exists>k. r k \<and> (k, 2 ^ i) \<in> set intentsMap))"
    using rec by (intro exI [of _ mask]) (simp add: shardManager_intents_def mask_def)
  have len: "length intentsMap = 15"
    by (simp add: intentsMap_def)
  have num: "shardManager_intents (Some (IntentsNumber n))
       = (if n = NaN \<or> n = NegZero then Finite 0 else n)"
    by (cases n) (simp_all add: shardManager_intents_def)
  have "shardManager_intents None = Finite 32767"
    "shardManager_intents (Some (IntentsBool True)) = Finite 32767"
    "shardManager_intents (Some (IntentsBool False)) = Finite 0"
    by (simp_all add: shardManager_intents_def all_intents)
  with record_mask len num all_intents show ?thesis
    by blast
qed

section \<open>Properties of \<^verbatim>\<open>RestClient.request\<close>\<close>

text \<open>Building the request throws in exactly four situations.\<close>

lemma request_fetch_args_throws_iff:
  "(\<exists>err. request_fetch_args rt REST token endpoint meth data = Inl err)
    \<longleftrightarrow> (token \<noteq> [] \<and> \<not> header_value_ok rt (''Bot '' @ token))
       \<or> data = Some DataNull
       \<or> (\<exists>otherData. data = Some (DataWithFile NotBlob otherData))
       \<or> (\<exists>j. data = Some (DataPlain j) \<and> JSON_stringify rt j = Throws)"
  by (auto simp: request_fetch_args_def Let_def
      split: option.splits request_data.splits file_value.splits stringified.splits)

text \<open>
  Claim C8 says that every invocation of \<^verbatim>\<open>request\<close> makes exactly one outbound call and
  that 400 and 404 throw a DiscordJSONError. Both fail: with \<^verbatim>\<open>data\<close> equal to \<^verbatim>\<open>null\<close> the
  code throws a TypeError at \<^verbatim>\<open>data.file\<close> and calls \<^verbatim>\<open>fetch\<close> not at all; and a 404 whose
  body is not JSON throws what \<^verbatim>\<open>res.json()\<close> rejects with.
\<close>

theorem request_null_data_no_call_and_404_syntax_error:
  "users_me (answering 200 (Some ''{}'')) (Some DataNull) = ([], Inl RequestTypeError)
   \<and> length (fst (users_me (answering 200 (Some ''{}'')) (Some DataNull))) = 0
   \<and> snd (users_me (answering 404 None) None) = Inl JSONSyntaxError"
  by (simp add: users_me_def request_def request_fetch_args_def request_switch_def answering_def)

text \<open>
  Claim C8 as amended. Every invocation of \<^verbatim>\<open>request\<close> makes at most one outbound call and
  retries nothing. It makes none, and throws the error met, when building the request
  throws: the Authorization value is refused, \<^verbatim>\<open>data\<close> is \<^verbatim>\<open>null\<close>, a truthy \<^verbatim>\<open>data.file\<close> is
  not a Blob, or \<^verbatim>\<open>JSON.stringify\<close> throws. Otherwise it makes exactly one. When that call
  rejects, the rejection is thrown. When it resolves, the status decides the outcome: 200
  and 201 return the parsed JSON body, and 400 and 404 throw a DiscordJSONError carrying
  the status and the response JSON, both provided the body parses (the rejection of
  \<^verbatim>\<open>res.json()\<close> is thrown otherwise); 204 returns nothing; 401, 403 and 429 throw the
  invalid-token, no-permission and rate-limited errors; 502 and 500, 503, 504, 507, 508
  throw the two server-fault errors; every other status throws the fallback error.
\<close>

theorem request_at_most_one_call_status_outcome:
  fixes rt :: "('j, 'f) runtime"
  shows "length (fst (request rt REST token endpoint meth data)) \<le> 1
    \<and> ((\<exists>err. request_fetch_args rt REST token endpoint meth data = Inl err)
        \<longleftrightarrow> (token \<noteq> [] \<and> \<not> header_value_ok rt (''Bot '' @ token))
           \<or> data = Some DataNull
           \<or> (\<exists>otherData. data = Some (DataWithFile NotBlob otherData))
           \<or> (\<exists>j. data = Some (DataPlain j) \<and> JSON_stringify rt j = Throws))
    \<and> (request_fetch_args rt REST token endpoint meth data = Inl err
        \<longrightarrow> request rt REST token endpoint meth data = ([], Inl err))
    \<and> (request_fetch_args rt REST token endpoint meth data = Inr args \<longrightarrow>
        fst (request rt REST token endpoint meth data) = [args]
      \<and> (fetch rt args = None
          \<longrightarrow> snd (request rt REST token endpoint meth data) = Inl FetchRejected)
      \<and> (fetch rt args = Some res \<longrightarrow>
          ((status res = 200 \<or> status res = 201)
            \<longrightarrow> snd (request rt REST token endpoint meth data)
                = (case json res of Some j \<Rightarrow> Inr (Some j) | None \<Rightarrow> Inl JSONSyntaxError))
        \<and> (status res = 204
            \<longrightarrow> snd (request rt REST token endpoint meth data) = Inr None)
        \<and> ((status res = 400 \<or> status res = 404)
            \<longrightarrow> snd (request rt REST token endpoint meth data)
                = (case json res of Some j \<Rightarrow> Inl (DiscordJSONError (status res) j)
                   | None \<Rightarrow> Inl JSONSyntaxError))
        \<and> (status res = 401
            \<longrightarrow> snd (request rt REST token endpoint meth data)
                = Inl (HTTPError 401 ''You supplied an invalid token''))
        \<and> (status res = 403
            \<longrightarrow> snd (request rt REST token endpoint meth data)
                = Inl (HTTPError 403 ''You don't have permission to do this''))
        \<and> (status res = 429
            \<longrightarrow> snd (request rt REST token endpoint meth data)
                = Inl (HTTPError 429 ''You are getting rate-limited''))
        \<and> (status res = 502
            \<longrightarrow> snd (request rt REST token endpoint meth data)
                = Inl (HTTPError 502 ''Gateway unavailable. Wait and retry''))
        \<and> (status res \<in> {500, 503, 504, 507, 508}
            \<longrightarrow> snd (request rt REST token endpoint meth data)
                = Inl (HTTPError (status res) ''Discord internal error''))
        \<and> (status res \<notin> {200, 201, 204, 400, 401, 403, 404, 429, 500, 502, 503, 504, 507, 508}
            \<longrightarrow> snd (request rt REST token endpoint meth data)
                = Inl (HTTPError (status res) ''Unexpected response''))))"
proof -
  have one: "length (fst (request rt REST token endpoint meth data)) \<le> 1"
    by (simp add: request_def split: sum.splits)
  have thrown: "request_fetch_args rt REST token endpoint meth data = Inl err
        \<longrightarrow> request rt REST token endpoint meth data = ([], Inl err)"
    by (simp add: request_def)
  have called: "request_fetch_args rt REST token endpoint meth data = Inr args \<longrightarrow>
        fst (request rt REST token endpoint meth data) = [args]
      \<and> snd (request rt REST token endpoint meth data)
          = (case fetch rt args of None \<Rightarrow> Inl FetchRejected | Some res \<Rightarrow> request_switch res)"
    by (simp add: request_def)
  show ?thesis
    using one thrown called
      request_fetch_args_throws_iff [of rt REST token endpoint meth data]
    by (auto simp: request_switch_def)
qed

theorem request_at_most_one_call_status_outcome_witness:
  "users_me (answering 200 (Some ''{}'')) (Some (DataWithFile NotBlob ''{}''))
       = ([], Inl RequestTypeError)
   \<and> length (fst (users_me (answering 200 (Some ''{}'')) (Some (DataPlain ''{}'')))) = 1
   \<and> snd (users_me (answering 200 (Some ''{}'')) None) = Inr (Some ''{}'')
   \<and> snd (users_me (answering 201 None) None) = Inl JSONSyntaxError
   \<and> snd (users_me (answering 204 None) None) = Inr None
   \<and> snd (users_me (answering 404 (Some ''{}'')) None) = Inl (DiscordJSONError 404 ''{}'')
   \<and> snd (users_me (answering 401 None) None)
       = Inl (HTTPError 401 ''You supplied an invalid token'')
   \<and> snd (users_me (answering 403 None) None)
       = Inl (HTTPError 403 ''You don't have permission to do this'')
   \<and> snd (users_me (answering 429 None) None)
       = Inl (HTTPError 429 ''You are getting rate-limited'')
   \<and> snd (users_me (answering 502 None) None)
       = Inl (HTTPError 502 ''Gateway unavailable. Wait and retry'')
   \<and> snd (users_me (answering 503 None) None)
       = Inl (HTTPError 503 ''Discord internal error'')
   \<and> snd (users_me (answering 418 None) None)
       = Inl (HTTPError 418 ''Unexpected response'')"
proof -
  let ?auth = "[(''User-Agent'', ''DiscordBot (https://github.com/DenordTS/denord, 0.0.1)''),
                (''Authorization'', ''Bot token'')]"
  let ?get = "\<lparr>url = ''https://discord.com/api/users/@me'', fetch_method = GET,
               headers = ?auth, body = None\<rparr> :: unit fetch_args"
  let ?post = "\<lparr>url = ''https://discord.com/api/users/@me'', fetch_method = GET,
               headers = ?auth @ [(''Content-Type'', ''application/json'')],
               body = Some (BodyText ''{}'')\<rparr> :: unit fetch_args"
  have get: "request_fetch_args (answering s b) ''https://discord.com/api/'' ''token''
      ''users/@me'' GET None = Inr ?get" for s b
    by (simp add: request_fetch_args_def answering_def)
  have post: "request_fetch_args (answering s b) ''https://discord.com/api/'' ''token''
      ''users/@me'' GET (Some (DataPlain ''{}'')) = Inr ?post" for s b
    by (simp add: request_fetch_args_def answering_def)
  have bad: "request_fetch_args (answering s b) ''https://discord.com/api/'' ''token''
      ''users/@me'' GET (Some (DataWithFile NotBlob ''{}'')) = Inl RequestTypeError" for s b
    by (simp add: request_fetch_args_def answering_def)
  have ans: "fetch (answering s b) a = Some \<lparr>status = s, json = b\<rparr>" for s b a
    by (simp add: answering_def)
  note inst = request_at_most_one_call_status_outcome
    [where REST = "''https://discord.com/api/''" and token = "''token''"
       and endpoint = "''users/@me''" and meth = GET]
  show ?thesis
    unfolding users_me_def
    using
      inst [where rt = "answering 200 (Some ''{}'')" and data = "Some (DataWithFile NotBlob ''{}'')"
             and err = RequestTypeError]
      inst [where rt = "answering 200 (Some ''{}'')" and data = "Some (DataPlain ''{}'')"
             and args = ?post]
      inst [where rt = "answering 200 (Some ''{}'')" and data = None and args = ?get
             and res = "\<lparr>status = 200, json = Some ''{}''\<rparr>"]
      inst [where rt = "answering 201 None" and data = None and args = ?get
             and res = "\<lparr>status = 201, json = None\<rparr>"]
      inst [where rt = "answering 204 None" and data = None and args = ?get
             and res = "\<lparr>status = 204, json = None\<rparr>"]
      inst [where rt = "answering 404 (Some ''{}'')" and data = None and args = ?get
             and res = "\<lparr>status = 404, json = Some ''{}''\<rparr>"]
      inst [where rt = "answering 401 None" and data = None and args = ?get
             and res = "\<lparr>status = 401, json = None\<rparr>"]
      inst [where rt = "answering 403 None" and data = None and args = ?get
             and res = "\<lparr>status = 403, json = None\<rparr>"]
      inst [where rt = "answering 429 None" and data = None and args = ?get
             and res = "\<lparr>status = 429, json = None\<rparr>"]
      inst [where rt = "answering 502 None" and data = None and args = ?get
             and res = "\<lparr>status = 502, json = None\<rparr>"]
      inst [where rt = "answering 503 None" and data = None and args = ?get
             and res = "\<lparr>status = 503, json = None\<rparr>"]
      inst [where rt = "answering 418 None" and data = None and args = ?get
             and res = "\<lparr>status = 418, json = None\<rparr>"]
    by (simp add: get post bad ans)
qed

section \<open>Properties of the event handlers\<close>

lemmas store_defs = client0_def channel_c1_def channel_d1_def message_m1_def message_m2_def
  guild_g1_def thumbsup_def heart_def

lemmas reaction_defs = on_MESSAGE_REACTION_ADD_def on_MESSAGE_REACTION_REMOVE_def truthy_def
  guild_reaction_def dm_reaction_def reaction_added_def reaction_removed_def reaction_key_def
  store_message_def store_guildChannel_def store_dmChannel_def Let_def

subsection \<open>GUILD_EMOJIS_UPDATE\<close>

text \<open>
  Whatever the previous and the new emojis are, the handler of a known guild emits
  \<^verbatim>\<open>guildEmojiUpdate\<close>: the sizes it compares are those of the same map.
\<close>

lemma on_GUILD_EMOJIS_UPDATE_always_update:
  assumes "guilds c (geu_guild_id data) = Some guild0"
  shows "snd (on_GUILD_EMOJIS_UPDATE c data) =
    Inr [guildEmojiUpdate
          (guild0\<lparr>emojis := Map_of_entries (map (\<lambda>e. (rge_id e, parseEmoji e)) (geu_emojis data))\<rparr>)]"
  using assms by (simp add: on_GUILD_EMOJIS_UPDATE_def Let_def)

text \<open>
  Claim C1 says that a GUILD_EMOJIS_UPDATE whose new emoji set is strictly larger than the
  guild's previous one emits \<^verbatim>\<open>guildEmojiCreate\<close> with the added emoji. The code at such an
  event: the guild \<open>''g1''\<close> has no emojis, the event carries the one emoji \<open>''e1''\<close>, and
  the notification emitted is \<^verbatim>\<open>guildEmojiUpdate\<close>.
\<close>

theorem emojis_update_larger_set_emits_update:
  "guilds client0 ''g1'' = Some guild_g1
   \<and> Map_size (emojis guild_g1) = 0
   \<and> Map_size (Map_of_entries (map (\<lambda>e. (rge_id e, parseEmoji e)) (geu_emojis one_emoji))) = 1
   \<and> snd (on_GUILD_EMOJIS_UPDATE client0 one_emoji)
      = Inr [guildEmojiUpdate
              (guild_g1\<lparr>emojis := [(''e1'', \<lparr>ge_id = ''e1'', ge_name = ''party''\<rparr>)]\<rparr>)]"
  by (simp add: on_GUILD_EMOJIS_UPDATE_def Let_def client0_def guild_g1_def Map_size_def
      Map_of_entries_def parseEmoji_def one_emoji_def)

subsection \<open>Update events without a prior value\<close>

text \<open>
  Claim C2 says that CHANNEL_UPDATE, GUILD_MEMBER_UPDATE and MESSAGE_UPDATE complete and emit
  with the old value absent when the prior value is not in the store. For
  GUILD_MEMBER_UPDATE this fails: the guild \<open>''g1''\<close> is known, its member \<open>''u9''\<close> is not,
  and the handler throws a TypeError at \<^verbatim>\<open>oldMember.raw\<close>, leaves the store as it was and
  emits nothing.
\<close>

theorem member_update_absent_member_throws:
  "guilds client0 ''g1'' = Some guild_g1
   \<and> members guild_g1 ''u9'' = None
   \<and> on_GUILD_MEMBER_UPDATE client0 rename_u9 = (client0, Inl TypeError)"
  by (simp add: on_GUILD_MEMBER_UPDATE_def rename_u9_def client0_def guild_g1_def)

text \<open>
  The sibling paths. A CHANNEL_UPDATE for a channel that is not in the store it belongs
  to, and a MESSAGE_UPDATE for a message that is not cached in its cached channel,
  complete without an error, store the new value and emit the update notification with
  the old value absent; a GUILD_MEMBER_UPDATE for a member in the store completes and
  emits the cached member as the old value.
\<close>

lemma sibling_updates_emit_absent_old:
  "((ch_type (newChannelSwitch chan) = Type_DM \<or> ch_type (newChannelSwitch chan) = Type_groupDM)
      \<and> dmChannels c (rc_id chan) = None
     \<longrightarrow> on_CHANNEL_UPDATE c chan
         = (c\<lparr>dmChannels := (dmChannels c)(rc_id chan \<mapsto> newChannelSwitch chan)\<rparr>,
            Inr [channelUpdate None (newChannelSwitch chan)]))
   \<and> (ch_type (newChannelSwitch chan) \<noteq> Type_DM \<and> ch_type (newChannelSwitch chan) \<noteq> Type_groupDM
      \<and> guildChannels c (rc_id chan) = None
     \<longrightarrow> on_CHANNEL_UPDATE c chan
         = (c\<lparr>guildChannels := (guildChannels c)(rc_id chan \<mapsto> newChannelSwitch chan)\<rparr>,
            Inr [channelUpdate None (newChannelSwitch chan)]))
   \<and> (truthy (rmsg_guild_id msg) \<and> guildChannels c (rmsg_channel_id msg) = Some ch
      \<and> messages ch (rmsg_id msg) = None
     \<longrightarrow> on_MESSAGE_UPDATE c msg
         = (store_guildChannel c (rmsg_channel_id msg)
              (ch\<lparr>messages := (messages ch)(rmsg_id msg \<mapsto> new_Message msg)\<rparr>),
            Inr [messageUpdate (ch\<lparr>messages := (messages ch)(rmsg_id msg \<mapsto> new_Message msg)\<rparr>)
                   None (new_Message msg)]))
   \<and> (\<not> truthy (rmsg_guild_id msg) \<and> dmChannels c (rmsg_channel_id msg) = Some ch
      \<and> messages ch (rmsg_id msg) = None
     \<longrightarrow> on_MESSAGE_UPDATE c msg
         = (store_dmChannel c (rmsg_channel_id msg)
              (ch\<lparr>messages := (messages ch)(rmsg_id msg \<mapsto> new_Message msg)\<rparr>),
            Inr [messageUpdate (ch\<lparr>messages := (messages ch)(rmsg_id msg \<mapsto> new_Message msg)\<rparr>)
                   None (new_Message msg)]))
   \<and> (guilds c (mu_guild_id upd) = Some guild
      \<and> members guild (ru_id (mu_user upd)) = Some oldMember
     \<longrightarrow> (\<exists>guild' newMember. snd (on_GUILD_MEMBER_UPDATE c upd)
            = Inr [guildMemberUpdate guild' oldMember newMember]))"
  by (auto simp: on_CHANNEL_UPDATE_def on_MESSAGE_UPDATE_def on_GUILD_MEMBER_UPDATE_def
      new_Message_def newChannelSwitch_def new_Channel_def Let_def
      split: wire_channel_type.splits)

lemma sibling_updates_emit_absent_old_example:
  "dmChannels client0 ''d2'' = None
   \<and> snd (on_CHANNEL_UPDATE client0 update_d2)
       = Inr [channelUpdate None (newChannelSwitch update_d2)]
   \<and> dmChannels (fst (on_CHANNEL_UPDATE client0 update_d2)) ''d2''
       = Some (newChannelSwitch update_d2)
   \<and> guildChannels client0 ''c2'' = None
   \<and> snd (on_CHANNEL_UPDATE client0 update_c2)
       = Inr [channelUpdate None (newChannelSwitch update_c2)]
   \<and> messages channel_c1 ''m9'' = None
   \<and> snd (on_MESSAGE_UPDATE client0 edit_unknown_c1)
       = Inr [messageUpdate
               (channel_c1\<lparr>messages := (messages channel_c1)(''m9'' \<mapsto> new_Message edit_unknown_c1)\<rparr>)
               None (new_Message edit_unknown_c1)]
   \<and> messages channel_d1 ''m9'' = None
   \<and> snd (on_MESSAGE_UPDATE client0 edit_unknown_d1)
       = Inr [messageUpdate
               (channel_d1\<lparr>messages := (messages channel_d1)(''m9'' \<mapsto> new_Message edit_unknown_d1)\<rparr>)
               None (new_Message edit_unknown_d1)]
   \<and> (\<exists>guild' newMember. snd (on_GUILD_MEMBER_UPDATE client0 rename_u1)
            = Inr [guildMemberUpdate guild' member_u1 newMember])"
  using
    sibling_updates_emit_absent_old [where chan = update_d2 and c = client0]
    sibling_updates_emit_absent_old [where chan = update_c2 and c = client0]
    sibling_updates_emit_absent_old [where msg = edit_unknown_c1 and c = client0 and ch = channel_c1]
    sibling_updates_emit_absent_old [where msg = edit_unknown_d1 and c = client0 and ch = channel_d1]
    sibling_updates_emit_absent_old [where upd = rename_u1 and c = client0 and guild = guild_g1
      and oldMember = member_u1]
  by (simp add: update_d2_def update_c2_def edit_unknown_c1_def edit_unknown_d1_def rename_u1_def
      client0_def channel_c1_def channel_d1_def guild_g1_def truthy_def
      newChannelSwitch_def new_Channel_def)

subsection \<open>Reactions\<close>

text \<open>
  Claim C3 says that the count of a reaction aggregate stays non-negative under every
  interleaving of MESSAGE_REACTION_ADD and MESSAGE_REACTION_REMOVE for one key. The code on
  the shortest balanced sequence: message \<open>''m1''\<close> has no \<open>thumbsup\<close>; user \<open>''u1''\<close> adds
  it, which creates the aggregate with count 0, and removes it again, which leaves the
  count at -1. Both handlers complete without an error.
\<close>

theorem reaction_count_negative_after_add_remove:
  "guild_reaction client0 ''c1'' ''m1'' (Some ''thumbsup'') = None
   \<and> (\<exists>ns. snd (on_MESSAGE_REACTION_ADD client0 thumbsup_on_m1) = Inr ns)
   \<and> guild_reaction (fst (on_MESSAGE_REACTION_ADD client0 thumbsup_on_m1))
        ''c1'' ''m1'' (Some ''thumbsup'')
       = Some \<lparr>count = 0, emoji = thumbsup, me = False\<rparr>
   \<and> (\<exists>ns. snd (on_MESSAGE_REACTION_REMOVE (fst (on_MESSAGE_REACTION_ADD client0 thumbsup_on_m1))
               thumbsup_on_m1) = Inr ns)
   \<and> guild_reaction
        (fst (on_MESSAGE_REACTION_REMOVE (fst (on_MESSAGE_REACTION_ADD client0 thumbsup_on_m1))
               thumbsup_on_m1))
        ''c1'' ''m1'' (Some ''thumbsup'')
       = Some \<lparr>count = - 1, emoji = thumbsup, me = False\<rparr>"
  by (simp add: reaction_defs store_defs thumbsup_on_m1_def)

text \<open>
  Claim C4 says that a MESSAGE_REACTION_REMOVE on a cached message changes the count of the
  aggregate under the emoji's key by exactly -1. For a message cached in a DM channel this
  fails: \<open>thumbsup\<close> on \<open>''m2''\<close> has count 2, the handler completes, and afterwards there
  is no aggregate under the key, where the branch for a guild channel leaves one with
  count 1.
\<close>

theorem dm_remove_deletes_aggregate:
  "dm_reaction client0 ''d1'' ''m2'' (reaction_key (rx_emoji thumbsup_on_m2))
       = Some \<lparr>count = 2, emoji = thumbsup, me = False\<rparr>
   \<and> (\<exists>ns. snd (on_MESSAGE_REACTION_REMOVE client0 thumbsup_on_m2) = Inr ns)
   \<and> dm_reaction (fst (on_MESSAGE_REACTION_REMOVE client0 thumbsup_on_m2))
        ''d1'' ''m2'' (reaction_key (rx_emoji thumbsup_on_m2)) = None"
  by (simp add: reaction_defs store_defs thumbsup_on_m2_def)

text \<open>
  What the two handlers do otherwise, with the session's own user set. When the message
  is cached and an aggregate is stored under the event's key, MESSAGE_REACTION_ADD stores
  the aggregate with the count increased by 1, in a guild channel and in a DM channel, and
  MESSAGE_REACTION_REMOVE in a guild channel stores it with the count decreased by 1; in a
  DM channel no aggregate is left. When the channel is cached and the message is not, the
  store is left as it is and the notification carries the message id.
\<close>

lemma reaction_events_on_stored_aggregate:
  "(truthy (rx_guild_id data)
     \<and> guildChannels c (rx_channel_id data) = Some ch
     \<and> messages ch (rx_message_id data) = Some m
     \<and> reactions m (reaction_key (rx_emoji data)) = Some prev
     \<and> user c = Some self
    \<longrightarrow> guild_reaction (fst (on_MESSAGE_REACTION_ADD c data))
          (rx_channel_id data) (rx_message_id data) (reaction_key (rx_emoji data))
        = Some \<lparr>count = count prev + 1, emoji = rx_emoji data,
                me = (rx_user_id data = pu_id self \<or> me prev)\<rparr>
      \<and> guild_reaction (fst (on_MESSAGE_REACTION_REMOVE c data))
          (rx_channel_id data) (rx_message_id data) (reaction_key (rx_emoji data))
        = Some \<lparr>count = count prev - 1, emoji = rx_emoji data,
                me = (rx_user_id data \<noteq> pu_id self \<and> me prev)\<rparr>)
   \<and> (\<not> truthy (rx_guild_id data)
     \<and> dmChannels c (rx_channel_id data) = Some ch
     \<and> messages ch (rx_message_id data) = Some m
     \<and> reactions m (reaction_key (rx_emoji data)) = Some prev
     \<and> user c = Some self
    \<longrightarrow> dm_reaction (fst (on_MESSAGE_REACTION_ADD c data))
          (rx_channel_id data) (rx_message_id data) (reaction_key (rx_emoji data))
        = Some \<lparr>count = count prev + 1, emoji = rx_emoji data,
                me = (rx_user_id data = pu_id self \<or> me prev)\<rparr>
      \<and> dm_reaction (fst (on_MESSAGE_REACTION_REMOVE c data))
          (rx_channel_id data) (rx_message_id data) (reaction_key (rx_emoji data))
        = None)
   \<and> (truthy (rx_guild_id data)
     \<and> guildChannels c (rx_channel_id data) = Some ch
     \<and> messages ch (rx_message_id data) = None
    \<longrightarrow> on_MESSAGE_REACTION_ADD c data
        = (c, Inr [messageReactionAdd ch (Inr (rx_message_id data)) (rx_emoji data)
                     (users c (rx_user_id data))])
      \<and> on_MESSAGE_REACTION_REMOVE c data
        = (c, Inr [messageReactionRemove ch (Inr (rx_message_id data)) (rx_emoji data)
                     (users c (rx_user_id data))]))
   \<and> (\<not> truthy (rx_guild_id data)
     \<and> dmChannels c (rx_channel_id data) = Some ch
     \<and> messages ch (rx_message_id data) = None
    \<longrightarrow> on_MESSAGE_REACTION_ADD c data
        = (c, Inr [messageReactionAdd ch (Inr (rx_message_id data)) (rx_emoji data)
                     (users c (rx_user_id data))])
      \<and> on_MESSAGE_REACTION_REMOVE c data
        = (c, Inr [messageReactionRemove ch (Inr (rx_message_id data)) (rx_emoji data)
                     (users c (rx_user_id data))]))"
  by (simp add: on_MESSAGE_REACTION_ADD_def on_MESSAGE_REACTION_REMOVE_def
      guild_reaction_def dm_reaction_def reaction_added_def reaction_removed_def
      store_message_def store_guildChannel_def store_dmChannel_def Let_def)

lemma reaction_events_on_stored_aggregate_example:
  "guild_reaction (fst (on_MESSAGE_REACTION_ADD client0 heart_on_m1)) ''c1'' ''m1'' (Some ''heart'')
       = Some \<lparr>count = 2, emoji = heart, me = True\<rparr>
   \<and> guild_reaction (fst (on_MESSAGE_REACTION_REMOVE client0 heart_on_m1)) ''c1'' ''m1'' (Some ''heart'')
       = Some \<lparr>count = 0, emoji = heart, me = True\<rparr>
   \<and> dm_reaction (fst (on_MESSAGE_REACTION_ADD client0 thumbsup_on_m2)) ''d1'' ''m2'' (Some ''thumbsup'')
       = Some \<lparr>count = 3, emoji = thumbsup, me = False\<rparr>
   \<and> dm_reaction (fst (on_MESSAGE_REACTION_REMOVE client0 thumbsup_on_m2)) ''d1'' ''m2'' (Some ''thumbsup'')
       = None
   \<and> on_MESSAGE_REACTION_ADD client0 heart_on_unknown_c1
       = (client0, Inr [messageReactionAdd channel_c1 (Inr ''m9'') heart
                          (Some \<lparr>u_id = ''u1'', u_username = ''ann''\<rparr>)])
   \<and> on_MESSAGE_REACTION_REMOVE client0 heart_on_unknown_d1
       = (client0, Inr [messageReactionRemove channel_d1 (Inr ''m9'') heart
                          (Some \<lparr>u_id = ''u1'', u_username = ''ann''\<rparr>)])"
  using
    reaction_events_on_stored_aggregate [where data = heart_on_m1 and c = client0
      and ch = channel_c1 and m = message_m1
      and prev = "\<lparr>count = 1, emoji = heart, me = True\<rparr>"
      and self = "\<lparr>pu_id = ''u0'', pu_username = ''bot''\<rparr>"]
    reaction_events_on_stored_aggregate [where data = thumbsup_on_m2 and c = client0
      and ch = channel_d1 and m = message_m2
      and prev = "\<lparr>count = 2, emoji = thumbsup, me = False\<rparr>"
      and self = "\<lparr>pu_id = ''u0'', pu_username = ''bot''\<rparr>"]
    reaction_events_on_stored_aggregate [where data = heart_on_unknown_c1 and c = client0
      and ch = channel_c1]
    reaction_events_on_stored_aggregate [where data = heart_on_unknown_d1 and c = client0
      and ch = channel_d1]
  by (simp add: heart_on_m1_def thumbsup_on_m2_def heart_on_unknown_c1_def heart_on_unknown_d1_def
      truthy_def reaction_key_def heart_def thumbsup_def client0_def
      channel_c1_def channel_d1_def message_m1_def message_m2_def)



subsection \<open>GUILD_MEMBERS_CHUNK\<close>

text \<open>The handler throws on every event and leaves the store as it was.\<close>

lemma on_GUILD_MEMBERS_CHUNK_always_throws:
  "on_GUILD_MEMBERS_CHUNK c data = (c, Inl TypeError)"
  by (simp add: on_GUILD_MEMBERS_CHUNK_def new_Map_def split: option.splits)

text \<open>
  Claim C5 says that after a GUILD_MEMBERS_CHUNK on a known guild every member of the chunk
  is in the guild's member map. The code at such an event: the guild \<open>''g1''\<close> is known,
  the chunk carries the member \<open>''u7''\<close>, the handler throws a TypeError, and \<open>''u7''\<close> is
  not in the member map afterwards.
\<close>

theorem members_chunk_throws:
  "guilds client0 ''g1'' = Some guild_g1
   \<and> members guild_g1 ''u7'' = None
   \<and> snd (on_GUILD_MEMBERS_CHUNK client0 chunk_u7) = Inl TypeError
   \<and> guilds (fst (on_GUILD_MEMBERS_CHUNK client0 chunk_u7)) ''g1'' = Some guild_g1"
  by (simp add: on_GUILD_MEMBERS_CHUNK_def new_Map_def client0_def guild_g1_def chunk_u7_def)

subsection \<open>GUILD_MEMBER_UPDATE\<close>

text \<open>
  Claim C6. A GUILD_MEMBER_UPDATE for a member in the store whose payload carries the
  member's role list unchanged and a different nickname: the new member's role list
  equals the old one's, the nicknames of the old and the new member in the emitted
  \<^verbatim>\<open>guildMemberUpdate\<close> differ, and nothing else in the store changes: the channels, the
  users, the session's user, the other guilds, and in this guild the id, the emojis, the
  roles, the presences and every other member are as before.
\<close>

theorem member_update_nickname_only:
  assumes "guilds c (mu_guild_id data) = Some guild"
    and "members guild (ru_id (mu_user data)) = Some oldMember"
    and "mu_roles data = gm_roles oldMember"
    and "mu_nick data = Some nick"
    and "nick \<noteq> nickname oldMember"
  shows "\<exists>newMember guild'.
      on_GUILD_MEMBER_UPDATE c data
        = (c\<lparr>guilds := (guilds c)(mu_guild_id data \<mapsto> guild')\<rparr>,
           Inr [guildMemberUpdate guild' oldMember newMember])
    \<and> guild' = guild\<lparr>members := (members guild)(ru_id (mu_user data) \<mapsto> newMember)\<rparr>
    \<and> gm_roles newMember = gm_roles oldMember
    \<and> nickname newMember = nick
    \<and> nickname newMember \<noteq> nickname oldMember
    \<and> guildChannels (fst (on_GUILD_MEMBER_UPDATE c data)) = guildChannels c
    \<and> dmChannels (fst (on_GUILD_MEMBER_UPDATE c data)) = dmChannels c
    \<and> users (fst (on_GUILD_MEMBER_UPDATE c data)) = users c
    \<and> user (fst (on_GUILD_MEMBER_UPDATE c data)) = user c
    \<and> (\<forall>g. g \<noteq> mu_guild_id data
          \<longrightarrow> guilds (fst (on_GUILD_MEMBER_UPDATE c data)) g = guilds c g)
    \<and> g_id guild' = g_id guild \<and> emojis guild' = emojis guild \<and> roles guild' = roles guild
    \<and> presences guild' = presences guild
    \<and> (\<forall>u. u \<noteq> ru_id (mu_user data) \<longrightarrow> members guild' u = members guild u)"
  using assms
  by (simp add: on_GUILD_MEMBER_UPDATE_def new_GuildMember_def spread_member_def Let_def)

theorem member_update_nickname_only_witness:
  "guilds client0 ''g1'' = Some guild_g1
   \<and> members guild_g1 ''u1'' = Some member_u1
   \<and> gm_roles member_u1 = [''r1'', ''r2'']
   \<and> nickname member_u1 = Some ''annie''
   \<and> (\<exists>newMember guild'.
        snd (on_GUILD_MEMBER_UPDATE client0 rename_u1)
          = Inr [guildMemberUpdate guild' member_u1 newMember]
        \<and> gm_roles newMember = [''r1'', ''r2'']
        \<and> nickname newMember = Some ''captain''
        \<and> guilds (fst (on_GUILD_MEMBER_UPDATE client0 rename_u1)) ''g1'' = Some guild'
        \<and> members guild' ''u1'' = Some newMember)"
proof -
  have g: "guilds client0 (mu_guild_id rename_u1) = Some guild_g1"
    by (simp add: client0_def rename_u1_def)
  have m: "members guild_g1 (ru_id (mu_user rename_u1)) = Some member_u1"
    by (simp add: guild_g1_def rename_u1_def)
  have r: "mu_roles rename_u1 = gm_roles member_u1"
    by (simp add: rename_u1_def member_u1_def new_GuildMember_def)
  have n: "mu_nick rename_u1 = Some (Some ''captain'')"
    by (simp add: rename_u1_def)
  have d: "Some ''captain'' \<noteq> nickname member_u1"
    by (simp add: member_u1_def new_GuildMember_def)
  from member_update_nickname_only [OF g m r n d]
  obtain newMember guild' where
    res: "on_GUILD_MEMBER_UPDATE client0 rename_u1
        = (client0\<lparr>guilds := (guilds client0)(mu_guild_id rename_u1 \<mapsto> guild')\<rparr>,
           Inr [guildMemberUpdate guild' member_u1 newMember])"
    and g': "guild' = guild_g1\<lparr>members := (members guild_g1)(ru_id (mu_user rename_u1) \<mapsto> newMember)\<rparr>"
    and roles: "gm_roles newMember = gm_roles member_u1"
    and nick: "nickname newMember = Some ''captain''"
    by blast
  have "snd (on_GUILD_MEMBER_UPDATE client0 rename_u1)
          = Inr [guildMemberUpdate guild' member_u1 newMember]
        \<and> gm_roles newMember = [''r1'', ''r2'']
        \<and> nickname newMember = Some ''captain''
        \<and> guilds (fst (on_GUILD_MEMBER_UPDATE client0 rename_u1)) ''g1'' = Some guild'
        \<and> members guild' ''u1'' = Some newMember"
    using res g' roles nick
    by (simp add: rename_u1_def member_u1_def new_GuildMember_def)
  then have ex: "\<exists>newMember guild'.
        snd (on_GUILD_MEMBER_UPDATE client0 rename_u1)
          = Inr [guildMemberUpdate guild' member_u1 newMember]
        \<and> gm_roles newMember = [''r1'', ''r2'']
        \<and> nickname newMember = Some ''captain''
        \<and> guilds (fst (on_GUILD_MEMBER_UPDATE client0 rename_u1)) ''g1'' = Some guild'
        \<and> members guild' ''u1'' = Some newMember"
    by blast
  have "guilds client0 ''g1'' = Some guild_g1" "members guild_g1 ''u1'' = Some member_u1"
    "gm_roles member_u1 = [''r1'', ''r2'']" "nickname member_u1 = Some ''annie''"
    by (simp_all add: client0_def guild_g1_def member_u1_def new_GuildMember_def)
  with ex show ?thesis by blast
qed

subsection \<open>MESSAGE_DELETE\<close>

text \<open>
  Claim C7. A MESSAGE_DELETE whose channel is cached (in the guild channels when the event
  carries a guild id, in the DM channels otherwise) completes; afterwards the channel is
  stored with the message id removed from its message cache, and the one \<^verbatim>\<open>messageDelete\<close>
  emitted carries the cached Message when there was one, and otherwise the stub made of
  the event's id, channel id and guild id (absent when the event has none).
\<close>

theorem message_delete_removes_and_reports:
  "(truthy (md_guild_id data) \<and> guildChannels c (md_channel_id data) = Some ch
    \<longrightarrow> snd (on_MESSAGE_DELETE c data)
        = Inr [messageDelete (ch\<lparr>messages := (messages ch)(md_id data := None)\<rparr>)
                (case messages ch (md_id data) of
                   Some m \<Rightarrow> Inl m
                 | None \<Rightarrow> Inr \<lparr>um_id = md_id data, um_channelId = md_channel_id data,
                                  um_guildId = md_guild_id data\<rparr>)]
      \<and> guildChannels (fst (on_MESSAGE_DELETE c data)) (md_channel_id data)
        = Some (ch\<lparr>messages := (messages ch)(md_id data := None)\<rparr>)
      \<and> dmChannels (fst (on_MESSAGE_DELETE c data)) = dmChannels c)
   \<and> (\<not> truthy (md_guild_id data) \<and> dmChannels c (md_channel_id data) = Some ch
    \<longrightarrow> snd (on_MESSAGE_DELETE c data)
        = Inr [messageDelete (ch\<lparr>messages := (messages ch)(md_id data := None)\<rparr>)
                (case messages ch (md_id data) of
                   Some m \<Rightarrow> Inl m
                 | None \<Rightarrow> Inr \<lparr>um_id = md_id data, um_channelId = md_channel_id data,
                                  um_guildId = md_guild_id data\<rparr>)]
      \<and> dmChannels (fst (on_MESSAGE_DELETE c data)) (md_channel_id data)
        = Some (ch\<lparr>messages := (messages ch)(md_id data := None)\<rparr>)
      \<and> guildChannels (fst (on_MESSAGE_DELETE c data)) = guildChannels c)"
  by (simp add: on_MESSAGE_DELETE_def message_or_stub_def store_guildChannel_def
      store_dmChannel_def Let_def)

theorem message_delete_removes_and_reports_witness:
  "messages channel_c1 ''m1'' = Some message_m1
   \<and> snd (on_MESSAGE_DELETE client0 delete_m1)
     = Inr [messageDelete (channel_c1\<lparr>messages := Map.empty\<rparr>) (Inl message_m1)]
   \<and> guildChannels (fst (on_MESSAGE_DELETE client0 delete_m1)) ''c1''
     = Some (channel_c1\<lparr>messages := Map.empty\<rparr>)
   \<and> messages channel_d1 ''m9'' = None
   \<and> snd (on_MESSAGE_DELETE client0 delete_unknown_d1)
     = Inr [messageDelete channel_d1
             (Inr \<lparr>um_id = ''m9'', um_channelId = ''d1'', um_guildId = None\<rparr>)]
   \<and> dmChannels (fst (on_MESSAGE_DELETE client0 delete_unknown_d1)) ''d1'' = Some channel_d1"
  using
    message_delete_removes_and_reports [where data = delete_m1 and c = client0 and ch = channel_c1]
    message_delete_removes_and_reports [where data = delete_unknown_d1 and c = client0
      and ch = channel_d1]
  by (simp add: delete_m1_def delete_unknown_d1_def truthy_def client0_def channel_c1_def
      channel_d1_def)

end
